theory Spec2Isabelle
  imports Main "HOL-Library.Sublist"
begin

section \<open>create-pull-request.py: a shallow embedding\<close>

text \<open>
  The script is a straight line of calls to the environment, to git (through GitPython)
  and to the GitHub API (through PyGithub). Everything it reads from outside is a field of
  the record \<open>world\<close>; everything it asks the outside to do is an \<open>action\<close>, and a run
  is the list of actions issued, in order, together with the way the run ended.
  Strings are lists of characters with code points below 256.
\<close>

subsection \<open>Values read from the event file\<close>

text \<open>
  What \<^verbatim>\<open>json.load\<close> returns: \<^verbatim>\<open>None\<close>, a bool, an int, a str, a list or a dict
  (an association list, the first binding of a key is the one the dict holds).
  Numbers with a fraction or an exponent are left out. An int is one the parser could
  read, so it is within the interpreter's limit on the digits of an int and \<^verbatim>\<open>str\<close> can
  print it.
\<close>

datatype json =
    JNull
  | JBool bool
  | JInt int
  | JStr string
  | JArr "json list"
  | JObj "(string \<times> json) list"

subsection \<open>Calls to the outside\<close>

datatype action =
    Print string
  | PrintJson json
  | ReadEvent string
  | OpenRepo
  | Git "string list"
  | ListOriginRefs
  | IsDirty
  | UntrackedFiles
  | System string
  | GetRepo string string
  | CreatePull string string string string
  | AsIssue
  | EditLabels "string list"
  | EditAssignees "string list"
  | GetMilestone int
  | EditMilestone int
  | RequestReviewers "string list"
  | RequestTeamReviewers "string list"

text \<open>
  \<^item> \<open>Print s\<close>: \<^verbatim>\<open>print(s)\<close>; \<open>PrintJson v\<close>: \<^verbatim>\<open>print(json.dumps(v, sort_keys=True, indent=2))\<close>;
  \<^item> \<open>ReadEvent p\<close>: \<^verbatim>\<open>open(p)\<close> and \<^verbatim>\<open>json.load\<close>; \<open>OpenRepo\<close>: \<^verbatim>\<open>Repo(os.getcwd())\<close>;
  \<^item> \<open>Git args\<close>: the git command line GitPython runs for \<^verbatim>\<open>repo.git.<command>(...)\<close>;
  \<^item> \<open>ListOriginRefs\<close>, \<open>IsDirty\<close>, \<open>UntrackedFiles\<close>: \<^verbatim>\<open>repo.remotes.origin.refs\<close>,
    \<^verbatim>\<open>repo.is_dirty()\<close>, \<^verbatim>\<open>repo.untracked_files\<close>;
  \<^item> \<open>System c\<close>: \<^verbatim>\<open>os.system(c)\<close>;
  \<^item> \<open>GetRepo token name\<close>: \<^verbatim>\<open>Github(token).get_repo(name)\<close>;
  \<^item> \<open>CreatePull title body base head\<close>: \<^verbatim>\<open>github_repo.create_pull(...)\<close>;
  \<^item> \<open>AsIssue\<close>: \<^verbatim>\<open>pull_request.as_issue()\<close>, followed by one \<^verbatim>\<open>edit(...)\<close>:
    \<open>EditLabels\<close>, \<open>EditAssignees\<close> or \<open>EditMilestone\<close>;
  \<^item> \<open>GetMilestone n\<close>: \<^verbatim>\<open>github_repo.get_milestone(n)\<close>;
  \<^item> \<open>RequestReviewers\<close>, \<open>RequestTeamReviewers\<close>: \<^verbatim>\<open>pull_request.create_review_request(...)\<close>.
\<close>

datatype error =
    KeyError string
  | TypeError
  | ValueError string
  | IndexError
  | CallFailed action

text \<open>
  A piece of the script either returns a value, calls \<^verbatim>\<open>sys.exit()\<close> (exit status 0), or
  lets an exception escape (exit status 1).
\<close>

datatype 'a result = Returned 'a | Exited | Raised error

type_synonym 'a run = "action list \<times> 'a result"

fun exit_status :: "'a run \<Rightarrow> nat" where
  "exit_status (t, Returned x) = 0"
| "exit_status (t, Exited) = 0"
| "exit_status (t, Raised e) = 1"

definition ret :: "'a \<Rightarrow> 'a run" where
  "ret x = ([], Returned x)"

definition raise :: "error \<Rightarrow> 'a run" where
  "raise e = ([], Raised e)"

definition sys_exit :: "'a run" where
  "sys_exit = ([], Exited)"

text \<open>Sequencing: the second piece runs only when the first returned.\<close>

definition andthen :: "'a run \<Rightarrow> ('a \<Rightarrow> 'b run) \<Rightarrow> 'b run" where
  "andthen m f =
     (case m of
        (t, Returned x) \<Rightarrow> (case f x of (t', r) \<Rightarrow> (t @ t', r))
      | (t, Exited) \<Rightarrow> (t, Exited)
      | (t, Raised e) \<Rightarrow> (t, Raised e))"

text \<open>\<^verbatim>\<open>try: m except: h\<close> with a bare \<^verbatim>\<open>except\<close>, which also catches \<^verbatim>\<open>SystemExit\<close>.\<close>

definition try_except :: "'a run \<Rightarrow> 'a run \<Rightarrow> 'a run" where
  "try_except m h =
     (case m of
        (t, Returned x) \<Rightarrow> (t, Returned x)
      | (t, Exited) \<Rightarrow> (case h of (t', r) \<Rightarrow> (t @ t', r))
      | (t, Raised e) \<Rightarrow> (case h of (t', r) \<Rightarrow> (t @ t', r)))"

subsection \<open>The outside world\<close>

record world =
  environ :: "string \<Rightarrow> string option"
  event_file :: json
  str_of_container :: "json \<Rightarrow> string"
  short_sha :: string
  clock :: int
  randbelow :: "nat \<Rightarrow> nat"
  origin_refs :: "string list"
  dirty :: bool
  untracked :: "string list"
  push_output :: string
  pull_number :: int
  int_max_str_digits :: nat
  fails :: "action \<Rightarrow> bool"

text \<open>
  \<^item> \<open>environ\<close>: \<^verbatim>\<open>os.environ\<close>; \<open>event_file\<close>: the content of the event file;
  \<^item> \<open>str_of_container\<close>: what Python's \<^verbatim>\<open>str\<close> gives for a list or a dict (the
    interpreter's \<^verbatim>\<open>repr\<close>, not part of the script);
  \<^item> \<open>short_sha\<close>: the output of \<^verbatim>\<open>git rev-parse --short HEAD\<close>;
  \<^item> \<open>clock\<close>: \<^verbatim>\<open>int(time.time())\<close>; \<open>randbelow i\<close>: the raw value behind the \<open>i\<close>-th
    \<^verbatim>\<open>random.choice\<close>, reduced modulo the length of the sequence chosen from;
  \<^item> \<open>origin_refs\<close>: the names of \<^verbatim>\<open>repo.remotes.origin.refs\<close>;
  \<^item> \<open>dirty\<close>, \<open>untracked\<close>: \<^verbatim>\<open>repo.is_dirty()\<close> and \<^verbatim>\<open>repo.untracked_files\<close> after the
    checkout; \<open>push_output\<close>: what \<^verbatim>\<open>git push\<close> printed; \<open>pull_number\<close>: the number of
    the pull request the API created (read from the API's JSON, as the clock is read from
    the system: both are ints that \<^verbatim>\<open>%d\<close> and \<^verbatim>\<open>%s\<close> can print);
  \<^item> \<open>int_max_str_digits\<close>: \<^verbatim>\<open>sys.get_int_max_str_digits()\<close>, the interpreter's limit on the
    digits \<^verbatim>\<open>int\<close> reads from a string: 4300 unless configured, 0 when there is no limit;
  \<^item> \<open>fails a\<close>: the call \<open>a\<close> raises. There is one answer for each call; the only call
    the script can issue twice is \<^verbatim>\<open>as_issue()\<close>.
\<close>

text \<open>A call that may raise: it is recorded in the trace whether it raises or not.\<close>

definition call :: "world \<Rightarrow> action \<Rightarrow> unit run" where
  "call w a = (if fails w a then ([a], Raised (CallFailed a)) else ([a], Returned ()))"

text \<open>\<^verbatim>\<open>print\<close> and \<^verbatim>\<open>os.system\<close> do not raise.\<close>

definition emit :: "action \<Rightarrow> unit run" where
  "emit a = ([a], Returned ())"

text \<open>\<^verbatim>\<open>os.environ[k]\<close>, \<^verbatim>\<open>os.getenv(k, d)\<close> and \<^verbatim>\<open>bool(os.environ.get(k))\<close>.\<close>

definition environ_item :: "world \<Rightarrow> string \<Rightarrow> string run" where
  "environ_item w k = (case environ w k of None \<Rightarrow> raise (KeyError k) | Some v \<Rightarrow> ret v)"

definition getenv :: "world \<Rightarrow> string \<Rightarrow> string \<Rightarrow> string" where
  "getenv w k d = (case environ w k of None \<Rightarrow> d | Some v \<Rightarrow> v)"

fun truthy :: "string option \<Rightarrow> bool" where
  "truthy None = False"
| "truthy (Some s) = (s \<noteq> [])"

subsection \<open>Python's string operations\<close>

definition digit_char :: "nat \<Rightarrow> char" where
  "digit_char d = ''0123456789'' ! d"

fun show_nat :: "nat \<Rightarrow> string" where
  "show_nat n = (if n < 10 then [digit_char n] else show_nat (n div 10) @ [digit_char (n mod 10)])"

declare show_nat.simps [simp del]

text \<open>\<^verbatim>\<open>"%d" % i\<close> and \<^verbatim>\<open>"%s" % i\<close> for an int.\<close>

definition show_int :: "int \<Rightarrow> string" where
  "show_int i = (if i < 0 then CHR ''-'' # show_nat (nat (- i)) else show_nat (nat i))"

text \<open>\<^verbatim>\<open>str.isspace\<close> on the code points below 256.\<close>

definition py_isspace :: "char \<Rightarrow> bool" where
  "py_isspace c =
     (let n = (of_char c :: nat)
      in (9 \<le> n \<and> n \<le> 13) \<or> (28 \<le> n \<and> n \<le> 32) \<or> n = 133 \<or> n = 160)"

definition strip :: "string \<Rightarrow> string" where
  "strip s = rev (dropWhile py_isspace (rev (dropWhile py_isspace s)))"

text \<open>\<^verbatim>\<open>s.split(c)\<close>: empty fields are kept, and the empty string gives one empty field.\<close>

fun split :: "char \<Rightarrow> string \<Rightarrow> string list" where
  "split c [] = [[]]"
| "split c (x # xs) =
     (if x = c then [] # split c xs
      else (case split c xs of [] \<Rightarrow> [[x]] | y # ys \<Rightarrow> (x # y) # ys))"

text \<open>
  \<^verbatim>\<open>int(s)\<close>: surrounding whitespace is skipped, one sign is allowed, and the digits may be
  separated by single underscores. The whitespace \<^verbatim>\<open>int\<close> skips is not that of
  \<^verbatim>\<open>str.strip\<close>: of the code points below 128 it is the C locale's (9 to 13 and 32), so
  the separators 28 to 31 are not skipped; above, 133 and 160 are. A string with more
  digits than the interpreter's limit (when there is one, and beyond 640 digits) is
  refused, leading zeros counted, underscores and sign not.
\<close>

definition int_isspace :: "char \<Rightarrow> bool" where
  "int_isspace c =
     (let n = (of_char c :: nat)
      in (9 \<le> n \<and> n \<le> 13) \<or> n = 32 \<or> n = 133 \<or> n = 160)"

definition is_digit :: "char \<Rightarrow> bool" where
  "is_digit c = (let n = (of_char c :: nat) in 48 \<le> n \<and> n \<le> 57)"

fun digits_ok :: "string \<Rightarrow> bool" where
  "digits_ok [] = False"
| "digits_ok [c] = is_digit c"
| "digits_ok (c # d # r) =
     (is_digit c \<and> (if d = CHR ''_'' then digits_ok r else digits_ok (d # r)))"

definition digits_value :: "string \<Rightarrow> int" where
  "digits_value ds =
     foldl (\<lambda>acc c. 10 * acc + (int (of_char c) - 48)) 0 (filter (\<lambda>c. c \<noteq> CHR ''_'') ds)"

definition py_int :: "world \<Rightarrow> string \<Rightarrow> error + int" where
  "py_int w s =
     (let t = rev (dropWhile int_isspace (rev (dropWhile int_isspace s)));
          neg = (t \<noteq> [] \<and> hd t = CHR ''-'');
          body = (if t \<noteq> [] \<and> (hd t = CHR ''-'' \<or> hd t = CHR ''+'') then tl t else t);
          n = length (filter (\<lambda>c. c \<noteq> CHR ''_'') body)
      in if \<not> digits_ok body then Inl (ValueError s)
         else if 640 < n \<and> 0 < int_max_str_digits w \<and> int_max_str_digits w < n
         then Inl (ValueError s)
         else Inr (if neg then - digits_value body else digits_value body))"

text \<open>\<^verbatim>\<open>str(v)\<close>, which is what \<^verbatim>\<open>"{name}".format(...)\<close> applies to the value found.\<close>

definition py_str :: "world \<Rightarrow> json \<Rightarrow> string" where
  "py_str w v =
     (case v of
        JNull \<Rightarrow> ''None''
      | JBool b \<Rightarrow> (if b then ''True'' else ''False'')
      | JInt i \<Rightarrow> show_int i
      | JStr s \<Rightarrow> s
      | JArr xs \<Rightarrow> str_of_container w v
      | JObj kvs \<Rightarrow> str_of_container w v)"

text \<open>
  \<^verbatim>\<open>"{k[i1][i2]...}".format(**event_data)\<close>: the keyword \<open>k\<close> is looked up in the
  payload (which has to be a dict), then each index in turn; the indices used by the
  script are never numbers, so only a dict can be indexed with them.
\<close>

definition getitem :: "json \<Rightarrow> string \<Rightarrow> json run" where
  "getitem v k =
     (case v of
        JObj kvs \<Rightarrow> (case map_of kvs k of None \<Rightarrow> raise (KeyError k) | Some x \<Rightarrow> ret x)
      | _ \<Rightarrow> raise TypeError)"

fun getitems :: "json \<Rightarrow> string list \<Rightarrow> json run" where
  "getitems v [] = ret v"
| "getitems v (k # ks) = andthen (getitem v k) (\<lambda>x. getitems x ks)"

definition format_field :: "world \<Rightarrow> json \<Rightarrow> string \<Rightarrow> string list \<Rightarrow> string run" where
  "format_field w event_data k idx =
     andthen (getitem event_data k) (\<lambda>v. andthen (getitems v idx) (\<lambda>x. ret (py_str w x)))"

subsection \<open>The functions of the script\<close>

text \<open>\<^verbatim>\<open>get_github_event\<close> (lines 13-19).\<close>

definition get_github_event :: "world \<Rightarrow> string \<Rightarrow> json run" where
  "get_github_event w github_event_path =
     andthen (call w (ReadEvent github_event_path)) (\<lambda>_.
     andthen
       (if truthy (environ w ''DEBUG_EVENT'')
        then andthen (environ_item w ''GITHUB_EVENT_NAME'') (\<lambda>n.
             andthen (emit (Print n)) (\<lambda>_. emit (PrintJson (event_file w))))
        else ret ()) (\<lambda>_.
     ret (event_file w)))"

text \<open>\<^verbatim>\<open>ignore_event\<close> (lines 22-37).\<close>

definition ignore_event :: "world \<Rightarrow> string \<Rightarrow> json \<Rightarrow> bool run" where
  "ignore_event w event_name event_data =
     (if event_name = ''push'' then
        andthen (format_field w event_data ''deleted'' []) (\<lambda>deleted.
        if deleted = ''True'' then
          andthen (emit (Print ''Ignoring delete branch event.'')) (\<lambda>_. ret True)
        else
          andthen (format_field w event_data ''ref'' []) (\<lambda>ref.
          if \<not> prefix ''refs/heads/'' ref then
            andthen (emit (Print ''Ignoring events for tags and remotes.'')) (\<lambda>_. ret True)
          else ret False))
      else ret False)"

text \<open>\<^verbatim>\<open>get_head_short_sha\<close> (lines 40-41).\<close>

definition get_head_short_sha :: "world \<Rightarrow> string run" where
  "get_head_short_sha w =
     andthen (call w (Git [''rev-parse'', ''--short'', ''HEAD''])) (\<lambda>_. ret (short_sha w))"

text \<open>
  \<^verbatim>\<open>get_random_suffix\<close> (lines 44-45), with its two defaults as constants.
  \<^verbatim>\<open>random.choice\<close> raises \<^verbatim>\<open>IndexError\<close> on an empty sequence.
\<close>

definition ascii_lowercase :: string where
  "ascii_lowercase = ''abcdefghijklmnopqrstuvwxyz''"

definition digits :: string where
  "digits = ''0123456789''"

definition get_random_suffix :: "world \<Rightarrow> nat \<Rightarrow> string \<Rightarrow> string run" where
  "get_random_suffix w sz chars =
     (if 0 < sz \<and> chars = [] then raise IndexError
      else ret (map (\<lambda>i. chars ! (randbelow w i mod length chars)) [0..<sz]))"

text \<open>\<^verbatim>\<open>remote_branch_exists\<close> (lines 48-52): the loop over the refs, then the function.\<close>

fun refs_loop :: "string list \<Rightarrow> string \<Rightarrow> bool" where
  "refs_loop [] branch = False"
| "refs_loop (name # refs) branch =
     (if name = ''origin/'' @ branch then True else refs_loop refs branch)"

definition remote_branch_exists :: "world \<Rightarrow> string \<Rightarrow> bool run" where
  "remote_branch_exists w branch =
     andthen (call w ListOriginRefs) (\<lambda>_. ret (refs_loop (origin_refs w) branch))"

text \<open>\<^verbatim>\<open>get_head_author\<close> (lines 55-62). No line of the script calls it.\<close>

definition get_head_author :: "world \<Rightarrow> string \<Rightarrow> json \<Rightarrow> (string \<times> string) run" where
  "get_head_author w event_name event_data =
     (if event_name = ''push'' then
        andthen (format_field w event_data ''head_commit'' [''author'', ''email'']) (\<lambda>email.
        andthen (format_field w event_data ''head_commit'' [''author'', ''name'']) (\<lambda>name.
        ret (email, name)))
      else
        andthen (environ_item w ''GITHUB_ACTOR'') (\<lambda>actor.
        andthen (environ_item w ''GITHUB_ACTOR'') (\<lambda>name.
        ret (actor @ ''@users.noreply.github.com'', name))))"

text \<open>\<^verbatim>\<open>set_git_config\<close> (lines 65-67): the values are passed inside double quotes.\<close>

definition set_git_config :: "world \<Rightarrow> string \<Rightarrow> string \<Rightarrow> unit run" where
  "set_git_config w email name =
     andthen (call w (Git [''config'', ''--global'', ''user.email'', [CHR 0x22] @ email @ [CHR 0x22]])) (\<lambda>_.
     call w (Git [''config'', ''--global'', ''user.name'', [CHR 0x22] @ name @ [CHR 0x22]]))"

text \<open>\<^verbatim>\<open>set_git_remote_url\<close> (lines 70-71).\<close>

definition set_git_remote_url :: "world \<Rightarrow> string \<Rightarrow> string \<Rightarrow> unit run" where
  "set_git_remote_url w token github_repository =
     call w (Git [''remote'', ''set-url'', ''origin'',
                  ''https://x-access-token:'' @ token @ ''@github.com/'' @ github_repository])"

text \<open>\<^verbatim>\<open>checkout_branch\<close> (lines 74-84).\<close>

definition checkout_branch :: "world \<Rightarrow> bool \<Rightarrow> string \<Rightarrow> unit run" where
  "checkout_branch w remote_exists branch =
     (if remote_exists then
        andthen (call w (Git [''stash'', ''--include-untracked''])) (\<lambda>_.
        andthen (call w (Git [''checkout'', branch])) (\<lambda>_.
        try_except (call w (Git [''stash'', ''pop'']))
          (andthen (call w (Git [''checkout'', ''--theirs'', ''.''])) (\<lambda>_.
           call w (Git [''reset''])))))
      else call w (Git [''checkout'', ''-b'', branch, ''HEAD'']))"

text \<open>\<^verbatim>\<open>push_changes\<close> (lines 87-90).\<close>

definition push_changes :: "world \<Rightarrow> string \<Rightarrow> string \<Rightarrow> string run" where
  "push_changes w branch commit_message =
     andthen (call w (Git [''add'', ''-A''])) (\<lambda>_.
     andthen (call w (Git [''commit'', ''-m'', commit_message])) (\<lambda>_.
     andthen (call w (Git [''push'', ''-f'', ''--set-upstream'', ''origin'', branch])) (\<lambda>_.
     ret (push_output w))))"

text \<open>\<^verbatim>\<open>cs_string_to_list\<close> (lines 93-97).\<close>

definition cs_string_to_list :: "string \<Rightarrow> string list" where
  "cs_string_to_list str = filter (\<lambda>i. i \<noteq> []) (map strip (split CHR '','' str))"

text \<open>
  \<^verbatim>\<open>process_event\<close> (lines 100-163). The five optional settings are read before anything
  is done; each metadata step is one definition, in the order of the source.
\<close>

definition apply_labels :: "world \<Rightarrow> unit run" where
  "apply_labels w =
     (case environ w ''PULL_REQUEST_LABELS'' of
        None \<Rightarrow> ret ()
      | Some pull_request_labels \<Rightarrow>
          andthen (emit (Print ''Applying labels'')) (\<lambda>_.
          andthen (call w AsIssue) (\<lambda>_.
          call w (EditLabels (cs_string_to_list pull_request_labels)))))"

definition apply_assignees :: "world \<Rightarrow> unit run" where
  "apply_assignees w =
     (case environ w ''PULL_REQUEST_ASSIGNEES'' of
        None \<Rightarrow> ret ()
      | Some pull_request_assignees \<Rightarrow>
          andthen (emit (Print ''Applying assignees'')) (\<lambda>_.
          andthen (call w AsIssue) (\<lambda>_.
          call w (EditAssignees (cs_string_to_list pull_request_assignees)))))"

definition apply_milestone :: "world \<Rightarrow> unit run" where
  "apply_milestone w =
     (case environ w ''PULL_REQUEST_MILESTONE'' of
        None \<Rightarrow> ret ()
      | Some pull_request_milestone \<Rightarrow>
          andthen (emit (Print ''Applying milestone'')) (\<lambda>_.
          (case py_int w pull_request_milestone of
             Inl e \<Rightarrow> raise e
           | Inr n \<Rightarrow>
               andthen (call w (GetMilestone n)) (\<lambda>_.
               andthen (call w AsIssue) (\<lambda>_.
               call w (EditMilestone n))))))"

definition request_reviewers :: "world \<Rightarrow> unit run" where
  "request_reviewers w =
     (case environ w ''PULL_REQUEST_REVIEWERS'' of
        None \<Rightarrow> ret ()
      | Some pull_request_reviewers \<Rightarrow>
          andthen (emit (Print ''Requesting reviewers'')) (\<lambda>_.
          call w (RequestReviewers (cs_string_to_list pull_request_reviewers))))"

definition request_team_reviewers :: "world \<Rightarrow> unit run" where
  "request_team_reviewers w =
     (case environ w ''PULL_REQUEST_TEAM_REVIEWERS'' of
        None \<Rightarrow> ret ()
      | Some pull_request_team_reviewers \<Rightarrow>
          andthen (emit (Print ''Requesting team reviewers'')) (\<lambda>_.
          call w (RequestTeamReviewers (cs_string_to_list pull_request_team_reviewers))))"

definition process_event ::
  "world \<Rightarrow> string \<Rightarrow> json \<Rightarrow> string \<Rightarrow> string \<Rightarrow> bool \<Rightarrow> unit run" where
  "process_event w event_name event_data branch base remote_exists =
     andthen (environ_item w ''GITHUB_TOKEN'') (\<lambda>github_token.
     andthen (environ_item w ''GITHUB_REPOSITORY'') (\<lambda>github_repository.
     let commit_message =
           getenv w ''COMMIT_MESSAGE'' ''Auto-committed changes by create-pull-request action'';
         title =
           getenv w ''PULL_REQUEST_TITLE'' ''Auto-generated by create-pull-request action'';
         body =
           getenv w ''PULL_REQUEST_BODY''
             (''Auto-generated pull request by '' @
              ''[create-pull-request](https://github.com/peter-evans/create-pull-request) GitHub Action'')
     in
     andthen (set_git_remote_url w github_token github_repository) (\<lambda>_.
     andthen (emit (Print ''Pushing changes.'')) (\<lambda>_.
     andthen (push_changes w branch commit_message) (\<lambda>push_result.
     andthen (emit (Print push_result)) (\<lambda>_.
     if remote_exists then
       andthen (emit (Print (''Updated pull request branch '' @ branch @ ''.''))) (\<lambda>_. sys_exit)
     else
       andthen (emit (Print (''Creating a request to pull '' @ branch @ '' into '' @ base @ ''.''))) (\<lambda>_.
       andthen (call w (GetRepo github_token github_repository)) (\<lambda>_.
       andthen (call w (CreatePull title body base branch)) (\<lambda>_.
       andthen (emit (Print (''Created pull request '' @ show_int (pull_number w) @ ''.''))) (\<lambda>_.
       andthen (emit (System (''echo ::set-env name=PULL_REQUEST_NUMBER::'' @ show_int (pull_number w)))) (\<lambda>_.
       andthen (apply_labels w) (\<lambda>_.
       andthen (apply_assignees w) (\<lambda>_.
       andthen (apply_milestone w) (\<lambda>_.
       andthen (request_reviewers w) (\<lambda>_.
       request_team_reviewers w)))))))))))))))"

subsection \<open>The module-level code\<close>

text \<open>Lines 186-195: the branch name with its suffix.\<close>

definition suffixed_branch :: "world \<Rightarrow> string \<Rightarrow> string \<Rightarrow> string run" where
  "suffixed_branch w branch_suffix branch =
     (if branch_suffix = ''short-commit-hash'' then
        andthen (get_head_short_sha w) (\<lambda>sha. ret (branch @ ''-'' @ sha))
      else if branch_suffix = ''timestamp'' then
        ret (branch @ ''-'' @ show_int (clock w))
      else if branch_suffix = ''random'' then
        andthen (get_random_suffix w 7 (ascii_lowercase @ digits)) (\<lambda>suffix.
        ret (branch @ ''-'' @ suffix))
      else ret branch)"

text \<open>Lines 211-216: publish only when there is something to publish.\<close>

definition publish_if_changed ::
  "world \<Rightarrow> string \<Rightarrow> json \<Rightarrow> string \<Rightarrow> string \<Rightarrow> bool \<Rightarrow> unit run" where
  "publish_if_changed w event_name event_data branch base remote_exists =
     andthen (call w IsDirty) (\<lambda>_.
     andthen
       (if dirty w then ret True
        else andthen (call w UntrackedFiles) (\<lambda>_. ret (0 < length (untracked w)))) (\<lambda>changed.
     if changed then
       andthen (emit (Print ''Repository has modified or untracked files.'')) (\<lambda>_.
       process_event w event_name event_data branch base remote_exists)
     else emit (Print ''Repository has no modified or untracked files. Skipping.'')))"

text \<open>Lines 172-216: what is done for an event that is not ignored.\<close>

definition handle_event :: "world \<Rightarrow> string \<Rightarrow> json \<Rightarrow> unit run" where
  "handle_event w event_name event_data =
     andthen (call w OpenRepo) (\<lambda>_.
     let branch = getenv w ''PULL_REQUEST_BRANCH'' ''create-pull-request/patch'' in
     andthen (environ_item w ''GITHUB_REF'') (\<lambda>github_ref.
     let base = drop 11 github_ref in
     if prefix branch base then
       andthen (emit (Print (''Branch '' @ [CHR 0x27] @ base @ [CHR 0x27] @
                             '' was created by this action. Skipping.''))) (\<lambda>_. sys_exit)
     else
       let branch_suffix = getenv w ''BRANCH_SUFFIX'' ''short-commit-hash'' in
       andthen (suffixed_branch w branch_suffix branch) (\<lambda>branch.
       andthen (remote_branch_exists w branch) (\<lambda>remote_exists.
       if branch_suffix = ''short-commit-hash'' \<and> remote_exists then
         andthen (emit (Print (''Pull request branch '' @ [CHR 0x27] @ branch @ [CHR 0x27] @
                               '' already exists for this commit. Skipping.''))) (\<lambda>_. sys_exit)
       else
         andthen (set_git_config w ''openosrs.github@gmail.com'' ''OpenOSRS'') (\<lambda>_.
         andthen (checkout_branch w remote_exists branch) (\<lambda>_.
         publish_if_changed w event_name event_data branch base remote_exists))))))"

text \<open>Lines 167-171 and the whole script.\<close>

definition main :: "world \<Rightarrow> unit run" where
  "main w =
     andthen (environ_item w ''GITHUB_EVENT_NAME'') (\<lambda>event_name.
     andthen (environ_item w ''GITHUB_EVENT_PATH'') (\<lambda>github_event_path.
     andthen (get_github_event w github_event_path) (\<lambda>event_data.
     let skip_ignore_event = truthy (environ w ''SKIP_IGNORE'') in
     if skip_ignore_event then handle_event w event_name event_data
     else
       andthen (ignore_event w event_name event_data) (\<lambda>ignored.
       if \<not> ignored then handle_event w event_name event_data else ret ()))))"

subsection \<open>Reading a trace\<close>

text \<open>\<open>is_git c a\<close>: the call \<open>a\<close> is the git command \<open>c\<close>, whatever its arguments.\<close>

fun is_git :: "string \<Rightarrow> action \<Rightarrow> bool" where
  "is_git c (Git (x # args)) = (x = c)"
| "is_git c a = False"

fun is_create_pull :: "action \<Rightarrow> bool" where
  "is_create_pull (CreatePull title body base head) = True"
| "is_create_pull a = False"

text \<open>
  The calls that change nothing in the working tree, in the repository, on the remote or
  in the pull requests: printing, reading the event file, opening the repository,
  \<^verbatim>\<open>git rev-parse\<close>, listing the remote refs, the two status queries and the API's reads.
\<close>

fun read_only :: "action \<Rightarrow> bool" where
  "read_only (Print s) = True"
| "read_only (PrintJson v) = True"
| "read_only (ReadEvent p) = True"
| "read_only OpenRepo = True"
| "read_only (Git args) = (args = [''rev-parse'', ''--short'', ''HEAD''])"
| "read_only ListOriginRefs = True"
| "read_only IsDirty = True"
| "read_only UntrackedFiles = True"
| "read_only (GetRepo token name) = True"
| "read_only AsIssue = True"
| "read_only (GetMilestone n) = True"
| "read_only a = False"



subsection \<open>An example run\<close>

text \<open>
  A push to \<^verbatim>\<open>master\<close> with a modified working tree, labels and a milestone configured,
  and no pull-request branch on the remote yet. Every call succeeds.
\<close>

definition example_world :: world where
  "example_world =
     \<lparr> environ = map_of
         [(''GITHUB_EVENT_NAME'', ''push''),
          (''GITHUB_EVENT_PATH'', ''/github/workflow/event.json''),
          (''GITHUB_REF'', ''refs/heads/master''),
          (''GITHUB_TOKEN'', ''t0ken''),
          (''GITHUB_REPOSITORY'', ''owner/repo''),
          (''PULL_REQUEST_LABELS'', ''bug, ci''),
          (''PULL_REQUEST_MILESTONE'', ''3'')],
       event_file = JObj
         [(''ref'', JStr ''refs/heads/master''),
          (''deleted'', JBool False),
          (''head_commit'',
             JObj [(''author'', JObj [(''email'', JStr ''dev@example.org''),
                                      (''name'', JStr ''Dev'')])])],
       str_of_container = (\<lambda>v. ''{...}''),
       short_sha = ''abc1234'',
       clock = 1572825600,
       randbelow = (\<lambda>i. 7 * i + 30),
       origin_refs = [''origin/master''],
       dirty = True,
       untracked = [],
       push_output = ''pushed'',
       pull_number = 42,
       int_max_str_digits = 4300,
       fails = (\<lambda>a. False) \<rparr>"

section \<open>Lemmas\<close>

subsection \<open>Sequencing\<close>

lemma andthen_simps:
  "andthen (t, Returned x) f = (t @ fst (f x), snd (f x))"
  "andthen (t, Exited) f = (t, Exited)"
  "andthen (t, Raised e) f = (t, Raised e)"
  by (simp_all add: andthen_def split: prod.splits)

lemmas run_defs = ret_def raise_def sys_exit_def emit_def call_def

lemma fst_andthen:
  "fst (andthen m f) = fst m @ (case snd m of Returned x \<Rightarrow> fst (f x) | Exited \<Rightarrow> [] | Raised e \<Rightarrow> [])"
  by (cases m) (simp add: andthen_def split: result.splits prod.splits)

lemma snd_andthen:
  "snd (andthen m f) = (case snd m of Returned x \<Rightarrow> snd (f x) | Exited \<Rightarrow> Exited | Raised e \<Rightarrow> Raised e)"
  by (cases m) (simp add: andthen_def split: result.splits prod.splits)

lemma exit_status_snd: "exit_status m = (case snd m of Raised e \<Rightarrow> 1 | _ \<Rightarrow> 0)"
  by (cases m) (simp split: result.splits)

subsection \<open>Properties of every call of a run\<close>

text \<open>
  \<open>list_all P (fst m)\<close>: every call the piece \<open>m\<close> issues satisfies \<open>P\<close>. One lemma for
  each function gives the calls it can issue.
\<close>

lemma all_andthen:
  "list_all P (fst m) \<Longrightarrow> (\<And>x. list_all P (fst (f x))) \<Longrightarrow> list_all P (fst (andthen m f))"
  by (simp add: fst_andthen split: result.splits)

lemma all_andthen_ret:
  "list_all P (fst m) \<Longrightarrow> (\<And>x. snd m = Returned x \<Longrightarrow> list_all P (fst (f x))) \<Longrightarrow>
   list_all P (fst (andthen m f))"
  by (simp add: fst_andthen split: result.splits)

lemma all_try_except:
  "list_all P (fst m) \<Longrightarrow> list_all P (fst h) \<Longrightarrow> list_all P (fst (try_except m h))"
  by (cases m; cases h) (simp add: try_except_def split: result.splits)

lemma all_basic:
  "list_all P (fst (ret x))" "list_all P (fst (raise e))" "list_all P (fst sys_exit)"
  "P a \<Longrightarrow> list_all P (fst (emit a))" "P a \<Longrightarrow> list_all P (fst (call w a))"
  "list_all P (fst (environ_item w k))"
  by (simp_all add: run_defs environ_item_def split: option.splits)

lemma all_mono: "list_all P xs \<Longrightarrow> (\<And>x. P x \<Longrightarrow> Q x) \<Longrightarrow> list_all Q xs"
  by (simp add: list_all_iff)

lemma fst_getitem: "fst (getitem v k) = []"
  by (simp add: getitem_def run_defs split: json.splits option.splits)

lemma fst_getitems: "fst (getitems v ks) = []"
  by (induction ks arbitrary: v) (simp_all add: fst_andthen fst_getitem run_defs split: result.splits)

lemma fst_format_field: "fst (format_field w d k idx) = []"
  by (simp add: format_field_def fst_andthen fst_getitem fst_getitems run_defs split: result.splits)

lemma all_format_field: "list_all P (fst (format_field w d k idx))"
  by (simp add: fst_format_field)

lemma format_field_top:
  "map_of kvs k = Some v \<Longrightarrow> format_field w (JObj kvs) k [] = ret (py_str w v)"
  by (simp add: format_field_def getitem_def andthen_simps ret_def)

lemma refs_loop_iff: "refs_loop refs branch \<longleftrightarrow> ''origin/'' @ branch \<in> set refs"
  by (induction refs) auto

lemma all_get_github_event:
  "P (ReadEvent p) \<Longrightarrow> (\<And>s. P (Print s)) \<Longrightarrow> (\<And>v. P (PrintJson v)) \<Longrightarrow>
   list_all P (fst (get_github_event w p))"
  unfolding get_github_event_def
  by (intro all_andthen all_basic) (auto intro!: all_andthen all_basic)

lemma all_ignore_event:
  "(\<And>s. P (Print s)) \<Longrightarrow> list_all P (fst (ignore_event w n d))"
  unfolding ignore_event_def
  by (auto intro!: all_andthen all_basic all_format_field)

lemma all_suffixed_branch:
  "P (Git [''rev-parse'', ''--short'', ''HEAD'']) \<Longrightarrow> list_all P (fst (suffixed_branch w s b))"
  unfolding suffixed_branch_def get_head_short_sha_def get_random_suffix_def
  by (auto intro!: all_andthen all_basic)

lemma all_remote_branch_exists:
  "P ListOriginRefs \<Longrightarrow> list_all P (fst (remote_branch_exists w b))"
  unfolding remote_branch_exists_def
  by (auto intro!: all_andthen all_basic)

lemma all_set_git_config:
  "(\<And>k v. P (Git [''config'', ''--global'', k, v])) \<Longrightarrow> list_all P (fst (set_git_config w e n))"
  unfolding set_git_config_def
  by (auto intro!: all_andthen all_basic)

lemma all_checkout_branch:
  "(\<And>args. P (Git (''stash'' # args))) \<Longrightarrow> (\<And>args. P (Git (''checkout'' # args))) \<Longrightarrow>
   P (Git [''reset'']) \<Longrightarrow> list_all P (fst (checkout_branch w re b))"
  unfolding checkout_branch_def
  by (auto intro!: all_andthen all_try_except all_basic)

lemma all_metadata:
  assumes "\<And>s. P (Print s)" "P AsIssue" "\<And>l. P (EditLabels l)" "\<And>l. P (EditAssignees l)"
    "\<And>n. P (GetMilestone n)" "\<And>n. P (EditMilestone n)" "\<And>l. P (RequestReviewers l)"
    "\<And>l. P (RequestTeamReviewers l)"
  shows "list_all P (fst (apply_labels w))" "list_all P (fst (apply_assignees w))"
    "list_all P (fst (apply_milestone w))" "list_all P (fst (request_reviewers w))"
    "list_all P (fst (request_team_reviewers w))"
  unfolding apply_labels_def apply_assignees_def apply_milestone_def request_reviewers_def
    request_team_reviewers_def
  by (auto intro!: all_andthen all_basic assms split: option.splits sum.splits)

lemma all_process_event:
  assumes "\<And>s. P (Print s)" "P AsIssue" "\<And>l. P (EditLabels l)" "\<And>l. P (EditAssignees l)"
    "\<And>n. P (GetMilestone n)" "\<And>n. P (EditMilestone n)" "\<And>l. P (RequestReviewers l)"
    "\<And>l. P (RequestTeamReviewers l)"
    "\<And>args. P (Git (''remote'' # args))" "\<And>args. P (Git (''add'' # args))"
    "\<And>args. P (Git (''commit'' # args))" "\<And>args. P (Git (''push'' # args))"
    "\<And>s. P (System s)" "\<And>t r. P (GetRepo t r)" "\<not> re \<Longrightarrow> (\<And>t b x h. P (CreatePull t b x h))"
  shows "list_all P (fst (process_event w en ed b base re))"
  unfolding process_event_def set_git_remote_url_def push_changes_def Let_def
  by (auto intro!: all_andthen all_basic all_metadata assms)

lemma all_publish_if_changed:
  assumes "P IsDirty" "P UntrackedFiles" "\<And>s. P (Print s)"
    "dirty w \<or> untracked w \<noteq> [] \<Longrightarrow> list_all P (fst (process_event w en ed b base re))"
  shows "list_all P (fst (publish_if_changed w en ed b base re))"
proof -
  have "list_all P (fst (if changed then
            andthen (emit (Print ''Repository has modified or untracked files.'')) (\<lambda>_.
            process_event w en ed b base re)
          else emit (Print ''Repository has no modified or untracked files. Skipping.'')))"
    if "snd (if dirty w then ret True
             else andthen (call w UntrackedFiles) (\<lambda>_. ret (0 < length (untracked w)))) =
        Returned changed" for changed
  proof (cases changed)
    case True
    with that have "dirty w \<or> untracked w \<noteq> []"
      by (auto simp: snd_andthen run_defs split: if_splits)
    with True show ?thesis by (auto intro!: all_andthen all_basic assms)
  next
    case False
    then show ?thesis by (simp add: all_basic assms)
  qed
  then show ?thesis
    unfolding publish_if_changed_def
    by (intro all_andthen all_andthen_ret all_basic assms)
       (auto intro!: all_andthen all_basic assms)
qed

lemma all_handle_event:
  assumes "P OpenRepo" "\<And>s. P (Print s)" "P (Git [''rev-parse'', ''--short'', ''HEAD''])"
    "P ListOriginRefs"
    "list_all P (fst (set_git_config w ''openosrs.github@gmail.com'' ''OpenOSRS''))"
    "\<And>args. P (Git (''stash'' # args))" "\<And>args. P (Git (''checkout'' # args))"
    "P (Git [''reset''])"
    "\<And>b base re. list_all P (fst (publish_if_changed w en ed b base re))"
  shows "list_all P (fst (handle_event w en ed))"
  unfolding handle_event_def Let_def
  by (auto intro!: all_andthen all_basic all_suffixed_branch all_remote_branch_exists
        all_checkout_branch assms)

lemma all_main:
  assumes "\<And>p. P (ReadEvent p)" "\<And>s. P (Print s)" "\<And>v. P (PrintJson v)"
    "\<And>en ed. list_all P (fst (handle_event w en ed))"
  shows "list_all P (fst (main w))"
  unfolding main_def Let_def
  by (auto intro!: all_andthen all_basic all_get_github_event all_ignore_event assms)

subsection \<open>The metadata steps when every call succeeds\<close>









subsection \<open>The two early exits\<close>

lemma handle_event_guard:
  assumes "environ w ''GITHUB_REF'' = Some github_ref"
    and "prefix (getenv w ''PULL_REQUEST_BRANCH'' ''create-pull-request/patch'') (drop 11 github_ref)"
  shows "handle_event w en ed =
     (if fails w OpenRepo then ([OpenRepo], Raised (CallFailed OpenRepo))
      else ([OpenRepo,
             Print (''Branch '' @ [CHR 0x27] @ drop 11 github_ref @ [CHR 0x27] @
                    '' was created by this action. Skipping.'')], Exited))"
  using assms by (simp add: handle_event_def Let_def environ_item_def andthen_simps run_defs)

lemma handle_event_existing:
  assumes ref: "environ w ''GITHUB_REF'' = Some github_ref"
    and strategy: "getenv w ''BRANCH_SUFFIX'' ''short-commit-hash'' = ''short-commit-hash''"
    and existing: "''origin/'' @ getenv w ''PULL_REQUEST_BRANCH'' ''create-pull-request/patch'' @ ''-'' @ short_sha w
                   \<in> set (origin_refs w)"
  shows "list_all read_only (fst (handle_event w en ed))"
    and "\<not> fails w OpenRepo \<Longrightarrow> \<not> fails w (Git [''rev-parse'', ''--short'', ''HEAD'']) \<Longrightarrow>
         \<not> fails w ListOriginRefs \<Longrightarrow> snd (handle_event w en ed) = Exited"
  using assms
  by (simp_all add: handle_event_def Let_def environ_item_def suffixed_branch_def
        get_head_short_sha_def remote_branch_exists_def refs_loop_iff andthen_simps run_defs)

lemma main_status:
  assumes "environ w ''GITHUB_EVENT_NAME'' = Some n" "environ w ''GITHUB_EVENT_PATH'' = Some p"
    "\<not> fails w (ReadEvent p)" "\<forall>e. snd (ignore_event w n (event_file w)) \<noteq> Raised e"
    "\<forall>e. snd (handle_event w n (event_file w)) \<noteq> Raised e"
  shows "exit_status (main w) = 0"
  using assms
  by (auto simp add: exit_status_snd main_def Let_def environ_item_def get_github_event_def
        snd_andthen run_defs split: result.splits)

subsection \<open>The status query\<close>

lemma filter_free: "list_all (\<lambda>a. a \<noteq> c) xs \<Longrightarrow> filter (\<lambda>a. a = c) xs = []"
  by (induction xs) auto

lemma atmost_andthen:
  "list_all (\<lambda>a. a \<noteq> c) (fst m) \<Longrightarrow> (\<And>x. length (filter (\<lambda>a. a = c) (fst (f x))) \<le> k) \<Longrightarrow>
   length (filter (\<lambda>a. a = c) (fst (andthen m f))) \<le> k"
  by (simp add: fst_andthen filter_free split: result.splits)

lemma atmost_basic:
  "length (filter (\<lambda>a. a = c) (fst (ret x))) \<le> k"
  "length (filter (\<lambda>a. a = c) (fst sys_exit)) \<le> k"
  by (simp_all add: run_defs)

lemma publish_checks_once:
  "length (filter (\<lambda>a. a = IsDirty) (fst (publish_if_changed w en ed b base re))) \<le> Suc 0"
proof -
  have "list_all (\<lambda>a. a \<noteq> IsDirty) (fst (process_event w en ed b base re))"
    by (rule all_process_event) simp_all
  then show ?thesis
    by (simp add: publish_if_changed_def fst_andthen snd_andthen run_defs filter_free
          split: result.splits)
qed

lemma handle_event_checks_once:
  "length (filter (\<lambda>a. a = IsDirty) (fst (handle_event w en ed))) \<le> Suc 0"
  unfolding handle_event_def Let_def
  by (auto intro!: atmost_andthen atmost_basic publish_checks_once all_basic all_suffixed_branch
        all_remote_branch_exists all_set_git_config all_checkout_branch)

lemma main_checks_once:
  "length (filter (\<lambda>a. a = IsDirty) (fst (main w))) \<le> Suc 0"
  unfolding main_def Let_def
  by (auto intro!: atmost_andthen atmost_basic handle_event_checks_once all_basic
        all_get_github_event all_ignore_event)

lemma publish_if_clean:
  "\<not> dirty w \<Longrightarrow> untracked w = [] \<Longrightarrow> \<not> fails w IsDirty \<Longrightarrow> \<not> fails w UntrackedFiles \<Longrightarrow>
   publish_if_changed w en ed b base re =
     ([IsDirty, UntrackedFiles,
       Print ''Repository has no modified or untracked files. Skipping.''], Returned ())"
  by (simp add: publish_if_changed_def andthen_simps run_defs)

subsection \<open>Other facts\<close>

lemma handle_event_opens: "OpenRepo \<in> set (fst (handle_event w en ed))"
  by (simp add: handle_event_def fst_andthen run_defs)



lemmas eval_defs = example_world_def getenv_def environ_item_def ignore_event_def
  format_field_def getitem_def py_str_def andthen_simps run_defs

subsection \<open>The functions the claims touch only in passing\<close>

text \<open>
  The commands of \<^verbatim>\<open>checkout_branch\<close> on each of its paths. What the working tree holds
  after them is git's business: the script sees no file content.
\<close>

lemma checkout_branch_conflict_commands:
  assumes "fails w (Git [''stash'', ''pop''])"
    and "\<not> fails w (Git [''stash'', ''--include-untracked''])"
    and "\<not> fails w (Git [''checkout'', branch])"
    and "\<not> fails w (Git [''checkout'', ''--theirs'', ''.''])"
    and "\<not> fails w (Git [''reset''])"
  shows "checkout_branch w True branch =
     ([Git [''stash'', ''--include-untracked''], Git [''checkout'', branch],
       Git [''stash'', ''pop''], Git [''checkout'', ''--theirs'', ''.''], Git [''reset'']],
      Returned ())"
  using assms by (simp add: checkout_branch_def try_except_def andthen_simps run_defs)

lemma checkout_branch_other_paths:
  "\<not> fails w (Git [''stash'', ''--include-untracked'']) \<Longrightarrow> \<not> fails w (Git [''checkout'', branch]) \<Longrightarrow>
   \<not> fails w (Git [''stash'', ''pop'']) \<Longrightarrow>
   checkout_branch w True branch =
     ([Git [''stash'', ''--include-untracked''], Git [''checkout'', branch],
       Git [''stash'', ''pop'']], Returned ())"
  "checkout_branch w False branch =
     ([Git [''checkout'', ''-b'', branch, ''HEAD'']],
      if fails w (Git [''checkout'', ''-b'', branch, ''HEAD''])
      then Raised (CallFailed (Git [''checkout'', ''-b'', branch, ''HEAD''])) else Returned ())"
  by (simp_all add: checkout_branch_def try_except_def andthen_simps run_defs)

text \<open>\<^verbatim>\<open>get_head_author\<close> would take the identity from the payload or from the actor.\<close>

lemma get_head_author_push:
  assumes "map_of kvs ''head_commit'' = Some (JObj hc)"
    and "map_of hc ''author'' = Some (JObj au)"
    and "map_of au ''email'' = Some (JStr email)"
    and "map_of au ''name'' = Some (JStr name)"
  shows "get_head_author w ''push'' (JObj kvs) = ([], Returned (email, name))"
  using assms
  by (simp add: get_head_author_def format_field_def getitem_def py_str_def andthen_simps run_defs)

lemma get_head_author_other:
  "event_name \<noteq> ''push'' \<Longrightarrow> environ w ''GITHUB_ACTOR'' = Some actor \<Longrightarrow>
   get_head_author w event_name event_data =
     ([], Returned (actor @ ''@users.noreply.github.com'', actor))"
  by (simp add: get_head_author_def environ_item_def andthen_simps run_defs)

text \<open>The two parsers on small inputs.\<close>

lemma cs_string_to_list_example:
  "cs_string_to_list ''bug, ci,, '' = [''bug'', ''ci'']"
  by code_simp

lemma py_int_examples:
  "py_int example_world '' 12 '' = Inr 12"
  "py_int example_world ''-1_0'' = Inr (- 10)"
  "py_int example_world ''1__0'' = Inl (ValueError ''1__0'')"
  "py_int example_world [] = Inl (ValueError [])"
  "py_int example_world [CHR 0x1C, CHR ''5''] = Inl (ValueError [CHR 0x1C, CHR ''5''])"
  "strip [CHR 0x1C, CHR ''5''] = ''5''"
  by code_simp+


section \<open>The claims\<close>

text \<open>
  Claim C2 (idempotency under \<^verbatim>\<open>short-commit-hash\<close>). When the suffix strategy is
  \<^verbatim>\<open>short-commit-hash\<close> (set, or left to its default) and the remote already has
  \<^verbatim>\<open>origin/<branch>-<short hash of HEAD>\<close>, the run issues nothing but reads and prints:
  no checkout, no commit, no push, no pull request. When moreover the environment has the
  event name and path, the four reads succeed and the classifier does not raise on the
  payload, the exit status is 0.
\<close>

theorem existing_branch_is_skipped:
  assumes ref: "environ w ''GITHUB_REF'' = Some github_ref"
    and strategy: "getenv w ''BRANCH_SUFFIX'' ''short-commit-hash'' = ''short-commit-hash''"
    and existing: "''origin/'' @ getenv w ''PULL_REQUEST_BRANCH'' ''create-pull-request/patch'' @ ''-'' @ short_sha w
                   \<in> set (origin_refs w)"
  shows "(\<forall>a\<in>set (fst (main w)).
            read_only a \<and> \<not> is_git ''checkout'' a \<and> \<not> is_git ''commit'' a \<and>
            \<not> is_git ''push'' a \<and> \<not> is_create_pull a) \<and>
         (environ w ''GITHUB_EVENT_NAME'' = Some n \<and> environ w ''GITHUB_EVENT_PATH'' = Some p \<and>
          \<not> fails w (ReadEvent p) \<and> \<not> fails w OpenRepo \<and>
          \<not> fails w (Git [''rev-parse'', ''--short'', ''HEAD'']) \<and> \<not> fails w ListOriginRefs \<and>
          (\<forall>e. snd (ignore_event w n (event_file w)) \<noteq> Raised e) \<longrightarrow>
          exit_status (main w) = 0)"
proof -
  have "list_all read_only (fst (main w))"
    by (rule all_main) (simp_all add: handle_event_existing(1) [OF assms])
  then have "list_all (\<lambda>a. read_only a \<and> \<not> is_git ''checkout'' a \<and> \<not> is_git ''commit'' a \<and>
            \<not> is_git ''push'' a \<and> \<not> is_create_pull a) (fst (main w))"
    by (rule all_mono) (auto elim!: read_only.elims)
  moreover have "exit_status (main w) = 0"
    if "environ w ''GITHUB_EVENT_NAME'' = Some n" "environ w ''GITHUB_EVENT_PATH'' = Some p"
      "\<not> fails w (ReadEvent p)" "\<not> fails w OpenRepo"
      "\<not> fails w (Git [''rev-parse'', ''--short'', ''HEAD''])" "\<not> fails w ListOriginRefs"
      "\<forall>e. snd (ignore_event w n (event_file w)) \<noteq> Raised e"
    using that by (intro main_status) (simp_all add: handle_event_existing(2) [OF assms])
  ultimately show ?thesis by (simp add: list_all_iff)
qed

text \<open>The second run on commit \<^verbatim>\<open>abc1234\<close>, once the first has pushed its branch.\<close>

theorem existing_branch_is_skipped_witness:
  "main (example_world\<lparr>origin_refs :=
       [''origin/master'', ''origin/create-pull-request/patch-abc1234'']\<rparr>) =
     ([ReadEvent ''/github/workflow/event.json'', OpenRepo,
       Git [''rev-parse'', ''--short'', ''HEAD''], ListOriginRefs,
       Print (''Pull request branch '' @ [CHR 0x27] @ ''create-pull-request/patch-abc1234'' @
              [CHR 0x27] @ '' already exists for this commit. Skipping.'')], Exited) \<and>
   exit_status (main (example_world\<lparr>origin_refs :=
       [''origin/master'', ''origin/create-pull-request/patch-abc1234'']\<rparr>)) = 0 \<and>
   list_all
     (\<lambda>a. read_only a \<and> \<not> is_git ''checkout'' a \<and> \<not> is_git ''commit'' a \<and>
          \<not> is_git ''push'' a \<and> \<not> is_create_pull a)
     (fst (main (example_world\<lparr>origin_refs :=
       [''origin/master'', ''origin/create-pull-request/patch-abc1234'']\<rparr>)))"
proof -
  let ?w = "example_world\<lparr>origin_refs :=
       [''origin/master'', ''origin/create-pull-request/patch-abc1234'']\<rparr>"
  have 1: "environ ?w ''GITHUB_REF'' = Some ''refs/heads/master''"
    by (simp add: example_world_def)
  have 2: "getenv ?w ''BRANCH_SUFFIX'' ''short-commit-hash'' = ''short-commit-hash''"
    by (simp add: eval_defs)
  have 3: "''origin/'' @ getenv ?w ''PULL_REQUEST_BRANCH'' ''create-pull-request/patch'' @ ''-'' @
           short_sha ?w \<in> set (origin_refs ?w)"
    by (simp add: eval_defs)
  have 4: "environ ?w ''GITHUB_EVENT_NAME'' = Some ''push'' \<and>
           environ ?w ''GITHUB_EVENT_PATH'' = Some ''/github/workflow/event.json'' \<and>
           (\<forall>a. \<not> fails ?w a) \<and>
           (\<forall>e. snd (ignore_event ?w ''push'' (event_file ?w)) \<noteq> Raised e)"
    by (simp add: eval_defs)
  have 5: "main ?w =
     ([ReadEvent ''/github/workflow/event.json'', OpenRepo,
       Git [''rev-parse'', ''--short'', ''HEAD''], ListOriginRefs,
       Print (''Pull request branch '' @ [CHR 0x27] @ ''create-pull-request/patch-abc1234'' @
              [CHR 0x27] @ '' already exists for this commit. Skipping.'')], Exited)"
    by code_simp
  from existing_branch_is_skipped [OF 1 2 3, of "''push''" "''/github/workflow/event.json''"] 4
  have "exit_status (main ?w) = 0 \<and>
    list_all
     (\<lambda>a. read_only a \<and> \<not> is_git ''checkout'' a \<and> \<not> is_git ''commit'' a \<and>
          \<not> is_git ''push'' a \<and> \<not> is_create_pull a)
     (fst (main ?w))"
    unfolding list_all_iff by blast
  with 5 show ?thesis by (intro conjI) blast+
qed

text \<open>
  Claim C3 (the event classifier). For a push event whose payload has \<^verbatim>\<open>deleted\<close> true,
  \<^verbatim>\<open>ignore_event\<close> returns true; for a push event whose payload has a \<^verbatim>\<open>deleted\<close>
  field and a \<^verbatim>\<open>ref\<close> that does not start with \<^verbatim>\<open>refs/heads/\<close>, it returns true; for a
  push event with \<^verbatim>\<open>deleted\<close> false and a \<^verbatim>\<open>ref\<close> under \<^verbatim>\<open>refs/heads/\<close>, it returns
  false and prints nothing; for any other event name it returns false whatever the
  payload is.
\<close>

theorem ignore_event_classifier:
  "(map_of kvs ''deleted'' = Some (JBool True) \<longrightarrow>
      snd (ignore_event w ''push'' (JObj kvs)) = Returned True) \<and>
   (map_of kvs ''deleted'' = Some d \<and> map_of kvs ''ref'' = Some (JStr r) \<and>
    \<not> prefix ''refs/heads/'' r \<longrightarrow>
      snd (ignore_event w ''push'' (JObj kvs)) = Returned True) \<and>
   (map_of kvs ''deleted'' = Some (JBool False) \<and> map_of kvs ''ref'' = Some (JStr r) \<and>
    prefix ''refs/heads/'' r \<longrightarrow>
      ignore_event w ''push'' (JObj kvs) = ([], Returned False)) \<and>
   (event_name \<noteq> ''push'' \<longrightarrow> ignore_event w event_name event_data = ([], Returned False))"
  by (auto simp: ignore_event_def format_field_top py_str_def andthen_simps run_defs)

text \<open>The four events of the specification's test.\<close>

theorem ignore_event_classifier_witness:
  "snd (ignore_event example_world ''push''
          (JObj [(''ref'', JStr ''refs/heads/main''), (''deleted'', JBool True)])) = Returned True \<and>
   snd (ignore_event example_world ''push''
          (JObj [(''ref'', JStr ''refs/tags/v1.0''), (''deleted'', JBool False)])) = Returned True \<and>
   ignore_event example_world ''push''
          (JObj [(''ref'', JStr ''refs/heads/main''), (''deleted'', JBool False)]) = ([], Returned False) \<and>
   ignore_event example_world ''workflow_dispatch''
          (JObj [(''ref'', JStr ''refs/tags/v1.0''), (''deleted'', JBool True)]) = ([], Returned False)"
  using
    ignore_event_classifier [where kvs = "[(''ref'', JStr ''refs/heads/main''), (''deleted'', JBool True)]"
      and w = example_world]
    ignore_event_classifier [where kvs = "[(''ref'', JStr ''refs/tags/v1.0''), (''deleted'', JBool False)]"
      and d = "JBool False" and r = "''refs/tags/v1.0''" and w = example_world]
    ignore_event_classifier [where kvs = "[(''ref'', JStr ''refs/heads/main''), (''deleted'', JBool False)]"
      and r = "''refs/heads/main''" and w = example_world]
    ignore_event_classifier [where event_name = "''workflow_dispatch''" and w = example_world
      and event_data = "JObj [(''ref'', JStr ''refs/tags/v1.0''), (''deleted'', JBool True)]"]
  by simp

text \<open>
  Claim C4 (the self-reference guard). When the configured branch name is a prefix of the
  current branch (\<^verbatim>\<open>GITHUB_REF\<close> without its first 11 characters), every call of the run
  is a read or a print, and none of them is \<^verbatim>\<open>git rev-parse\<close> or the listing of the remote
  refs: the branch name is not resolved, the remote is not looked up, nothing is checked
  out, pushed or created. When moreover the event name and path are set, the event file
  and the repository can be opened and the classifier does not raise, the exit status
  is 0.
\<close>

theorem self_reference_guard:
  assumes ref: "environ w ''GITHUB_REF'' = Some github_ref"
    and pre: "prefix (getenv w ''PULL_REQUEST_BRANCH'' ''create-pull-request/patch'') (drop 11 github_ref)"
  shows "(\<forall>a\<in>set (fst (main w)).
            read_only a \<and> a \<noteq> ListOriginRefs \<and> \<not> is_git ''rev-parse'' a) \<and>
         (environ w ''GITHUB_EVENT_NAME'' = Some n \<and> environ w ''GITHUB_EVENT_PATH'' = Some p \<and>
          \<not> fails w (ReadEvent p) \<and> \<not> fails w OpenRepo \<and>
          (\<forall>e. snd (ignore_event w n (event_file w)) \<noteq> Raised e) \<longrightarrow>
          exit_status (main w) = 0)"
proof -
  have "list_all (\<lambda>a. read_only a \<and> a \<noteq> ListOriginRefs \<and> \<not> is_git ''rev-parse'' a) (fst (main w))"
    by (rule all_main) (simp_all add: handle_event_guard [OF ref pre])
  moreover have "exit_status (main w) = 0"
    if "environ w ''GITHUB_EVENT_NAME'' = Some n" "environ w ''GITHUB_EVENT_PATH'' = Some p"
      "\<not> fails w (ReadEvent p)" "\<not> fails w OpenRepo"
      "\<forall>e. snd (ignore_event w n (event_file w)) \<noteq> Raised e"
    using that by (intro main_status) (simp_all add: handle_event_guard [OF ref pre])
  ultimately show ?thesis by (simp add: list_all_iff)
qed

text \<open>The run on the branch \<^verbatim>\<open>create-pull-request/patch-abc1234\<close>.\<close>

theorem self_reference_guard_witness:
  "main (example_world\<lparr>environ := (environ example_world)
       (''GITHUB_REF'' \<mapsto> ''refs/heads/create-pull-request/patch-abc1234'')\<rparr>) =
     ([ReadEvent ''/github/workflow/event.json'', OpenRepo,
       Print (''Branch '' @ [CHR 0x27] @ ''create-pull-request/patch-abc1234'' @ [CHR 0x27] @
              '' was created by this action. Skipping.'')], Exited) \<and>
   exit_status (main (example_world\<lparr>environ := (environ example_world)
       (''GITHUB_REF'' \<mapsto> ''refs/heads/create-pull-request/patch-abc1234'')\<rparr>)) = 0 \<and>
   list_all (\<lambda>a. read_only a \<and> a \<noteq> ListOriginRefs \<and> \<not> is_git ''rev-parse'' a)
     (fst (main (example_world\<lparr>environ := (environ example_world)
       (''GITHUB_REF'' \<mapsto> ''refs/heads/create-pull-request/patch-abc1234'')\<rparr>)))"
proof -
  let ?w = "example_world\<lparr>environ := (environ example_world)
       (''GITHUB_REF'' \<mapsto> ''refs/heads/create-pull-request/patch-abc1234'')\<rparr>"
  have 1: "environ ?w ''GITHUB_REF'' = Some ''refs/heads/create-pull-request/patch-abc1234''"
    by simp
  have 2: "prefix (getenv ?w ''PULL_REQUEST_BRANCH'' ''create-pull-request/patch'')
             (drop 11 ''refs/heads/create-pull-request/patch-abc1234'')"
    by (simp add: eval_defs)
  have 3: "environ ?w ''GITHUB_EVENT_NAME'' = Some ''push'' \<and>
           environ ?w ''GITHUB_EVENT_PATH'' = Some ''/github/workflow/event.json'' \<and>
           \<not> fails ?w (ReadEvent ''/github/workflow/event.json'') \<and> \<not> fails ?w OpenRepo \<and>
           (\<forall>e. snd (ignore_event ?w ''push'' (event_file ?w)) \<noteq> Raised e)"
    by (simp add: eval_defs)
  have 4: "main ?w =
     ([ReadEvent ''/github/workflow/event.json'', OpenRepo,
       Print (''Branch '' @ [CHR 0x27] @ ''create-pull-request/patch-abc1234'' @ [CHR 0x27] @
              '' was created by this action. Skipping.'')], Exited)"
    by code_simp
  from self_reference_guard [OF 1 2, of "''push''" "''/github/workflow/event.json''"] 3
  have "exit_status (main ?w) = 0 \<and>
    list_all (\<lambda>a. read_only a \<and> a \<noteq> ListOriginRefs \<and> \<not> is_git ''rev-parse'' a) (fst (main ?w))"
    unfolding list_all_iff by blast
  with 4 show ?thesis by (intro conjI) blast+
qed



text \<open>
  Claim C6 (the remote branch locator). The loop over the refs answers true exactly when
  some ref is named \<^verbatim>\<open>origin/\<close> followed by the branch name, compared as whole strings;
  \<^verbatim>\<open>remote_branch_exists\<close> issues the listing of the refs and nothing else, which is a
  read.
\<close>

theorem remote_branch_exists_exact:
  "(refs_loop refs n \<longleftrightarrow> ''origin/'' @ n \<in> set refs) \<and>
   remote_branch_exists w n =
     ([ListOriginRefs],
      if fails w ListOriginRefs then Raised (CallFailed ListOriginRefs)
      else Returned (''origin/'' @ n \<in> set (origin_refs w))) \<and>
   (\<forall>a\<in>set (fst (remote_branch_exists w n)). read_only a)"
  by (simp add: remote_branch_exists_def andthen_simps run_defs refs_loop_iff)

text \<open>A remote with a longer name beside one with the exact name.\<close>

theorem remote_branch_exists_exact_witness:
  "remote_branch_exists (example_world\<lparr>origin_refs := [''origin/master'', ''origin/patch-abc12345'']\<rparr>) ''patch-abc1234''
     = ([ListOriginRefs], Returned False) \<and>
   remote_branch_exists (example_world\<lparr>origin_refs := [''origin/master'', ''origin/patch-abc1234'']\<rparr>) ''patch-abc1234''
     = ([ListOriginRefs], Returned True) \<and>
   read_only ListOriginRefs"
  using remote_branch_exists_exact
    [of "[]" "''patch-abc1234''" "example_world\<lparr>origin_refs := [''origin/master'', ''origin/patch-abc12345'']\<rparr>"]
    remote_branch_exists_exact
    [of "[]" "''patch-abc1234''" "example_world\<lparr>origin_refs := [''origin/master'', ''origin/patch-abc1234'']\<rparr>"]
  by (simp add: example_world_def)

text \<open>
  Claim C7 (no-op on a clean tree). When \<^verbatim>\<open>is_dirty()\<close> is false and there are no
  untracked files, no run adds, commits, pushes or creates a pull request; the check before publishing,
  when its two queries succeed, asks both, prints the skip message and returns. In every
  run the dirtiness query is issued at most once.
\<close>

theorem clean_tree_is_noop:
  "(\<not> dirty w \<and> untracked w = [] \<longrightarrow>
      (\<forall>a\<in>set (fst (main w)).
         \<not> is_git ''add'' a \<and> \<not> is_git ''commit'' a \<and> \<not> is_git ''push'' a \<and>
         \<not> is_create_pull a)) \<and>
   (\<not> dirty w \<and> untracked w = [] \<and> \<not> fails w IsDirty \<and> \<not> fails w UntrackedFiles \<longrightarrow>
      publish_if_changed w event_name event_data branch base remote_exists =
        ([IsDirty, UntrackedFiles,
          Print ''Repository has no modified or untracked files. Skipping.''], Returned ())) \<and>
   length (filter (\<lambda>a. a = IsDirty) (fst (main w))) \<le> 1"
proof -
  let ?P = "\<lambda>a. \<not> is_git ''add'' a \<and> \<not> is_git ''commit'' a \<and> \<not> is_git ''push'' a \<and>
         \<not> is_create_pull a"
  have "list_all ?P (fst (main w))" if clean: "\<not> dirty w" "untracked w = []"
  proof -
    have pub: "list_all ?P (fst (publish_if_changed w en ed b base re))" for en ed b base re
      by (rule all_publish_if_changed) (use clean in simp_all)
    have cfg: "list_all ?P (fst (set_git_config w ''openosrs.github@gmail.com'' ''OpenOSRS''))"
      by (rule all_set_git_config) simp
    have "list_all ?P (fst (handle_event w en ed))" for en ed
      by (rule all_handle_event) (simp_all add: pub cfg)
    then show ?thesis by (intro all_main) simp_all
  qed
  then show ?thesis
    by (simp add: list_all_iff publish_if_clean main_checks_once)
qed

text \<open>The example with a clean working tree.\<close>

theorem clean_tree_is_noop_witness:
  "main (example_world\<lparr>dirty := False\<rparr>) =
     ([ReadEvent ''/github/workflow/event.json'', OpenRepo,
       Git [''rev-parse'', ''--short'', ''HEAD''], ListOriginRefs,
       Git [''config'', ''--global'', ''user.email'',
            [CHR 0x22] @ ''openosrs.github@gmail.com'' @ [CHR 0x22]],
       Git [''config'', ''--global'', ''user.name'', [CHR 0x22] @ ''OpenOSRS'' @ [CHR 0x22]],
       Git [''checkout'', ''-b'', ''create-pull-request/patch-abc1234'', ''HEAD''],
       IsDirty, UntrackedFiles,
       Print ''Repository has no modified or untracked files. Skipping.''], Returned ()) \<and>
   list_all
     (\<lambda>a. \<not> is_git ''add'' a \<and> \<not> is_git ''commit'' a \<and> \<not> is_git ''push'' a \<and>
          \<not> is_create_pull a)
     (fst (main (example_world\<lparr>dirty := False\<rparr>))) \<and>
   publish_if_changed (example_world\<lparr>dirty := False\<rparr>) ''push''
       (event_file example_world) ''create-pull-request/patch-abc1234'' ''master'' False =
     ([IsDirty, UntrackedFiles,
       Print ''Repository has no modified or untracked files. Skipping.''], Returned ()) \<and>
   length (filter (\<lambda>a. a = IsDirty) (fst (main (example_world\<lparr>dirty := False\<rparr>)))) \<le> 1"
proof -
  have run: "main (example_world\<lparr>dirty := False\<rparr>) =
     ([ReadEvent ''/github/workflow/event.json'', OpenRepo,
       Git [''rev-parse'', ''--short'', ''HEAD''], ListOriginRefs,
       Git [''config'', ''--global'', ''user.email'',
            [CHR 0x22] @ ''openosrs.github@gmail.com'' @ [CHR 0x22]],
       Git [''config'', ''--global'', ''user.name'', [CHR 0x22] @ ''OpenOSRS'' @ [CHR 0x22]],
       Git [''checkout'', ''-b'', ''create-pull-request/patch-abc1234'', ''HEAD''],
       IsDirty, UntrackedFiles,
       Print ''Repository has no modified or untracked files. Skipping.''], Returned ())"
    by code_simp
  have rest: "list_all
     (\<lambda>a. \<not> is_git ''add'' a \<and> \<not> is_git ''commit'' a \<and> \<not> is_git ''push'' a \<and>
          \<not> is_create_pull a)
     (fst (main (example_world\<lparr>dirty := False\<rparr>))) \<and>
   publish_if_changed (example_world\<lparr>dirty := False\<rparr>) ''push''
       (event_file example_world) ''create-pull-request/patch-abc1234'' ''master'' False =
     ([IsDirty, UntrackedFiles,
       Print ''Repository has no modified or untracked files. Skipping.''], Returned ()) \<and>
   length (filter (\<lambda>a. a = IsDirty) (fst (main (example_world\<lparr>dirty := False\<rparr>)))) \<le> 1"
  using clean_tree_is_noop [where w = "example_world\<lparr>dirty := False\<rparr>"
      and event_name = "''push''" and event_data = "event_file example_world"
      and branch = "''create-pull-request/patch-abc1234''" and base = "''master''"
      and remote_exists = False]
  by (simp add: example_world_def list_all_iff)
  from run rest show ?thesis by (intro conjI) blast+
qed



text \<open>
  Claim C9 (the configured identity). In every run, whatever the event and the
  environment, each \<^verbatim>\<open>git config\<close> command is one of the two that \<^verbatim>\<open>set_git_config\<close>
  issues for the constant pair \<^verbatim>\<open>openosrs.github@gmail.com\<close>, \<^verbatim>\<open>OpenOSRS\<close> (each value
  inside double quotes).
\<close>

theorem identity_is_constant:
  "\<forall>a\<in>set (fst (main w)).
     is_git ''config'' a \<longrightarrow>
     a = Git [''config'', ''--global'', ''user.email'',
              [CHR 0x22] @ ''openosrs.github@gmail.com'' @ [CHR 0x22]] \<or>
     a = Git [''config'', ''--global'', ''user.name'', [CHR 0x22] @ ''OpenOSRS'' @ [CHR 0x22]]"
proof -
  let ?P = "\<lambda>a. is_git ''config'' a \<longrightarrow>
     a = Git [''config'', ''--global'', ''user.email'',
              [CHR 0x22] @ ''openosrs.github@gmail.com'' @ [CHR 0x22]] \<or>
     a = Git [''config'', ''--global'', ''user.name'', [CHR 0x22] @ ''OpenOSRS'' @ [CHR 0x22]]"
  have pe: "list_all ?P (fst (process_event w en ed b base re))" for en ed b base re
    by (rule all_process_event) simp_all
  have pub: "list_all ?P (fst (publish_if_changed w en ed b base re))" for en ed b base re
  proof (rule all_publish_if_changed)
    show "list_all ?P (fst (process_event w en ed b base re))"
      by (rule pe)
  qed simp_all
  have cfg: "list_all ?P (fst (set_git_config w ''openosrs.github@gmail.com'' ''OpenOSRS''))"
    by (simp add: set_git_config_def fst_andthen run_defs split: result.splits)
  have handle: "list_all ?P (fst (handle_event w en ed))" for en ed
  proof (rule all_handle_event)
    show "list_all ?P (fst (set_git_config w ''openosrs.github@gmail.com'' ''OpenOSRS''))"
      by (rule cfg)
    show "list_all ?P (fst (publish_if_changed w en ed b base re))" for b base re
      by (rule pub)
  qed simp_all
  have "list_all ?P (fst (main w))"
  proof (rule all_main)
    show "list_all ?P (fst (handle_event w en ed))" for en ed
      by (rule handle)
  qed simp_all
  then show ?thesis
    unfolding list_all_iff .
qed

text \<open>The example run configures the constant address although the payload names another author.\<close>

theorem identity_is_constant_witness:
  "Git [''config'', ''--global'', ''user.email'',
        [CHR 0x22] @ ''openosrs.github@gmail.com'' @ [CHR 0x22]]
     \<in> set (fst (main example_world)) \<and>
   snd (get_head_author example_world ''push'' (event_file example_world)) =
     Returned (''dev@example.org'', ''Dev'') \<and>
   list_all
     (\<lambda>a. is_git ''config'' a \<longrightarrow>
          a = Git [''config'', ''--global'', ''user.email'',
                   [CHR 0x22] @ ''openosrs.github@gmail.com'' @ [CHR 0x22]] \<or>
          a = Git [''config'', ''--global'', ''user.name'', [CHR 0x22] @ ''OpenOSRS'' @ [CHR 0x22]])
     (fst (main example_world))"
proof (intro conjI)
  show "Git [''config'', ''--global'', ''user.email'',
        [CHR 0x22] @ ''openosrs.github@gmail.com'' @ [CHR 0x22]]
     \<in> set (fst (main example_world))"
    by code_simp
  show "snd (get_head_author example_world ''push'' (event_file example_world)) =
     Returned (''dev@example.org'', ''Dev'')"
    by code_simp
  show "list_all
     (\<lambda>a. is_git ''config'' a \<longrightarrow>
          a = Git [''config'', ''--global'', ''user.email'',
                   [CHR 0x22] @ ''openosrs.github@gmail.com'' @ [CHR 0x22]] \<or>
          a = Git [''config'', ''--global'', ''user.name'', [CHR 0x22] @ ''OpenOSRS'' @ [CHR 0x22]])
     (fst (main example_world))"
    unfolding list_all_iff by (rule identity_is_constant)
qed

text \<open>
  Claim C10 (\<^verbatim>\<open>SKIP_IGNORE\<close> is read by truthiness). When \<^verbatim>\<open>SKIP_IGNORE\<close> is set to any
  non-empty string, the run is the handling of the event with no call of the classifier.
  When the inputs can be read, the repository is opened exactly when \<^verbatim>\<open>SKIP_IGNORE\<close> is
  a non-empty string or the classifier returns false; so with the variable unset or empty
  the classifier decides.
\<close>

theorem skip_ignore_is_truthiness:
  "(\<forall>s. environ w ''SKIP_IGNORE'' = Some s \<and> s \<noteq> [] \<longrightarrow>
      main w =
        andthen (environ_item w ''GITHUB_EVENT_NAME'') (\<lambda>event_name.
        andthen (environ_item w ''GITHUB_EVENT_PATH'') (\<lambda>github_event_path.
        andthen (get_github_event w github_event_path) (\<lambda>event_data.
        handle_event w event_name event_data)))) \<and>
   (environ w ''GITHUB_EVENT_NAME'' = Some n \<and> environ w ''GITHUB_EVENT_PATH'' = Some p \<and>
    \<not> fails w (ReadEvent p) \<longrightarrow>
      (OpenRepo \<in> set (fst (main w)) \<longleftrightarrow>
         (\<exists>s. environ w ''SKIP_IGNORE'' = Some s \<and> s \<noteq> []) \<or>
         snd (ignore_event w n (event_file w)) = Returned False))"
proof -
  let ?skip = "\<exists>s. environ w ''SKIP_IGNORE'' = Some s \<and> s \<noteq> []"
  have skip: "truthy (environ w ''SKIP_IGNORE'') \<longleftrightarrow> ?skip"
    by (cases "environ w ''SKIP_IGNORE''") simp_all
  have bypass: "main w =
        andthen (environ_item w ''GITHUB_EVENT_NAME'') (\<lambda>event_name.
        andthen (environ_item w ''GITHUB_EVENT_PATH'') (\<lambda>github_event_path.
        andthen (get_github_event w github_event_path) (\<lambda>event_data.
        handle_event w event_name event_data)))" if ?skip
    using that skip by (simp add: main_def Let_def)
  have active: "OpenRepo \<in> set (fst (main w)) \<longleftrightarrow>
         ?skip \<or> snd (ignore_event w n (event_file w)) = Returned False"
    if inputs: "environ w ''GITHUB_EVENT_NAME'' = Some n" "environ w ''GITHUB_EVENT_PATH'' = Some p"
      "\<not> fails w (ReadEvent p)"
  proof -
    have a: "OpenRepo \<notin> set (fst (get_github_event w p))"
      using all_get_github_event [of "\<lambda>a. a \<noteq> OpenRepo" p w] by (auto simp: list_all_iff)
    have b: "OpenRepo \<notin> set (fst (ignore_event w n (event_file w)))"
      using all_ignore_event [of "\<lambda>a. a \<noteq> OpenRepo" w n "event_file w"]
      by (auto simp: list_all_iff)
    have c: "snd (get_github_event w p) = Returned (event_file w)"
      using inputs by (simp add: get_github_event_def environ_item_def snd_andthen run_defs)
    have m: "main w = andthen (get_github_event w p) (\<lambda>event_data.
               if truthy (environ w ''SKIP_IGNORE'') then handle_event w n event_data
               else andthen (ignore_event w n event_data) (\<lambda>ignored.
                    if \<not> ignored then handle_event w n event_data else ret ()))"
      using inputs by (simp add: main_def Let_def environ_item_def andthen_simps ret_def)
    show ?thesis
    proof (cases ?skip)
      case True
      then show ?thesis
        using skip handle_event_opens [of w n "event_file w"] by (simp add: m fst_andthen c)
    next
      case False
      then show ?thesis
        using skip a b handle_event_opens [of w n "event_file w"]
        by (cases "snd (ignore_event w n (event_file w))")
           (auto simp add: m fst_andthen c run_defs)
    qed
  qed
  from bypass active show ?thesis by blast
qed

text \<open>A deleted-branch push with \<^verbatim>\<open>SKIP_IGNORE\<close> set to \<^verbatim>\<open>false\<close>, to \<^verbatim>\<open>0\<close>, to the empty string, and unset.\<close>

theorem skip_ignore_is_truthiness_witness:
  "OpenRepo \<in> set (fst (main (example_world\<lparr>
       environ := (environ example_world)(''SKIP_IGNORE'' \<mapsto> ''false''),
       event_file := JObj [(''ref'', JStr ''refs/heads/topic''), (''deleted'', JBool True)]\<rparr>))) \<and>
   OpenRepo \<in> set (fst (main (example_world\<lparr>
       environ := (environ example_world)(''SKIP_IGNORE'' \<mapsto> ''0''),
       event_file := JObj [(''ref'', JStr ''refs/heads/topic''), (''deleted'', JBool True)]\<rparr>))) \<and>
   OpenRepo \<notin> set (fst (main (example_world\<lparr>
       environ := (environ example_world)(''SKIP_IGNORE'' \<mapsto> []),
       event_file := JObj [(''ref'', JStr ''refs/heads/topic''), (''deleted'', JBool True)]\<rparr>))) \<and>
   OpenRepo \<notin> set (fst (main (example_world\<lparr>
       environ := (environ example_world)(''SKIP_IGNORE'' := None),
       event_file := JObj [(''ref'', JStr ''refs/heads/topic''), (''deleted'', JBool True)]\<rparr>)))"
proof -
  let ?ev = "JObj [(''ref'', JStr ''refs/heads/topic''), (''deleted'', JBool True)]"
  have ig: "snd (ignore_event (example_world\<lparr>environ := e, event_file := ?ev\<rparr>) ''push'' ?ev)
            = Returned True" for e
    by (simp add: ignore_event_def format_field_def getitem_def py_str_def andthen_simps run_defs)
  have run: "OpenRepo \<in> set (fst (main (example_world\<lparr>environ := e, event_file := ?ev\<rparr>))) \<longleftrightarrow>
             (\<exists>s. e ''SKIP_IGNORE'' = Some s \<and> s \<noteq> [])"
    if "e ''GITHUB_EVENT_NAME'' = Some ''push''"
      "e ''GITHUB_EVENT_PATH'' = Some ''/github/workflow/event.json''" for e
  proof -
    have "\<not> fails (example_world\<lparr>environ := e, event_file := ?ev\<rparr>)
            (ReadEvent ''/github/workflow/event.json'')"
      by (simp add: example_world_def)
    with skip_ignore_is_truthiness [where w = "example_world\<lparr>environ := e, event_file := ?ev\<rparr>"
        and n = "''push''" and p = "''/github/workflow/event.json''"] that ig [of e]
    show ?thesis by simp
  qed
  have name: "environ example_world ''GITHUB_EVENT_NAME'' = Some ''push''"
    and path: "environ example_world ''GITHUB_EVENT_PATH'' = Some ''/github/workflow/event.json''"
    by (simp_all add: example_world_def)
  show ?thesis
    by (simp add: run name path)
qed

end
